theory Spec2Isabelle
  imports Main "HOL-Library.Word"
begin

unbundle bit_operations_syntax

section \<open>Common types\<close>

type_synonym byte = "8 word"
type_synonym path = string

section \<open>The filter loader: apply-seccomp.c\<close>

subsection \<open>Data\<close>

text \<open>\<^verbatim>\<open>#define MAX_FILTER_SIZE 4096\<close>: the size of the read buffer, in bytes.\<close>

definition MAX_FILTER_SIZE :: nat where
  "MAX_FILTER_SIZE = 4096"

text \<open>
  \<^verbatim>\<open>struct sock_fprog { unsigned short len; struct sock_filter *filter; }\<close>.
  The pointer \<^verbatim>\<open>filter\<close> is modelled by the initialised part of the buffer it points
  to (field \<open>filter_buf\<close>).
\<close>

record sock_fprog =
  len :: "16 word"
  filter_buf :: "byte list"

text \<open>
  Arguments of a \<^verbatim>\<open>fprintf\<close> conversion: \<^verbatim>\<open>%s\<close> takes a string, \<^verbatim>\<open>%zd\<close> a number;
  \<open>Strerror n\<close> is the string \<^verbatim>\<open>strerror(n)\<close>.
\<close>

datatype fmt_arg = Str string | Num int | Strerror int

text \<open>
  What the loader does to the outside world, in the order it does it. System calls carry
  the value the kernel returned. \<open>Perror s\<close> is a line on the error stream that starts
  with \<open>s\<close> and ends with the text of the current \<^verbatim>\<open>errno\<close>.
\<close>

datatype event =
    Fprintf_stderr string "fmt_arg list"
  | Perror string
  | Sys_open path int
  | Sys_read int nat int
  | Sys_close int
  | Prctl_no_new_privs int
  | Prctl_seccomp sock_fprog int
  | Sys_execvp string "string list" int

text \<open>
  The state of the calling process as the kernel holds it: the open descriptors (each
  with the bytes of its file that are still unread), the environment, the
  no-new-privileges attribute, the installed filters, and the trace of events so far.
\<close>

record process =
  fds :: "(nat \<times> byte list) list"
  environ :: "string list"
  no_new_privs :: bool
  seccomp_filters :: "sock_fprog list"
  trace :: "event list"

text \<open>
  The kernel's side of each call, which the loader cannot influence: which files can be
  opened and what they hold, whether a read fails, whether a read is short (\<open>Some m\<close>: it
  hands over at most \<open>m + 1\<close> bytes; \<open>None\<close>: as many as are asked for and there), whether
  the kernel refuses the attribute, a filter program, or an executable.
\<close>

record kernel =
  k_files :: "path \<rightharpoonup> byte list"
  k_read_error :: bool
  k_read_short :: "nat option"
  k_nnp_refused :: bool
  k_seccomp_refused :: "sock_fprog \<Rightarrow> bool"
  k_exec_refused :: "string \<Rightarrow> bool"

text \<open>How a run ends: \<^verbatim>\<open>return n\<close> from \<^verbatim>\<open>main\<close>, or the process image replaced.\<close>

datatype outcome = Exit int | Replaced string "string list"

subsection \<open>System calls\<close>

definition log :: "event \<Rightarrow> process \<Rightarrow> process" where
  "log e p = p\<lparr>trace := trace p @ [e]\<rparr>"

text \<open>
  \<^verbatim>\<open>open\<close> returns the lowest descriptor that is not open. Among \<open>n + 1\<close> candidates
  one is free when \<open>n\<close> are open; the last case only makes the function total.
\<close>

definition lowest_free_fd :: "nat list \<Rightarrow> nat" where
  "lowest_free_fd ds =
     (case find (\<lambda>n. n \<notin> set ds) [0..<Suc (length ds)] of
        Some n \<Rightarrow> n
      | None \<Rightarrow> Suc (sum_list ds))"

definition sys_open :: "kernel \<Rightarrow> path \<Rightarrow> process \<Rightarrow> int \<times> process" where
  "sys_open k pth p =
     (case k_files k pth of
        None \<Rightarrow> (- 1, log (Sys_open pth (- 1)) p)
      | Some content \<Rightarrow>
          let fd = lowest_free_fd (map fst (fds p))
          in (int fd, log (Sys_open pth (int fd)) (p\<lparr>fds := (fd, content) # fds p\<rparr>)))"

text \<open>
  \<^verbatim>\<open>read(fd, buf, count)\<close>: some of the bytes still unread and their number; \<open>-1\<close> and
  nothing in the buffer on an error. The kernel hands over at most \<open>count\<close> bytes and may
  hand over fewer, but at least one while bytes are left; \<open>0\<close> means the end of the file.
\<close>

definition read_len :: "kernel \<Rightarrow> nat \<Rightarrow> nat" where
  "read_len k count = (case k_read_short k of None \<Rightarrow> count | Some m \<Rightarrow> min count (Suc m))"

definition sys_read :: "kernel \<Rightarrow> int \<Rightarrow> nat \<Rightarrow> process \<Rightarrow> int \<times> byte list \<times> process" where
  "sys_read k fd count p =
     (case (if fd < 0 \<or> k_read_error k then None else map_of (fds p) (nat fd)) of
        None \<Rightarrow> (- 1, [], log (Sys_read fd count (- 1)) p)
      | Some content \<Rightarrow>
          let buf = take (read_len k count) content;
              n = int (length buf)
          in (n, buf,
              log (Sys_read fd count n)
                (p\<lparr>fds := map (\<lambda>(d, c). if d = nat fd then (d, drop (read_len k count) c)
                                        else (d, c)) (fds p)\<rparr>)))"

definition sys_close :: "int \<Rightarrow> process \<Rightarrow> process" where
  "sys_close fd p =
     log (Sys_close fd) (p\<lparr>fds := filter (\<lambda>(d, c). int d \<noteq> fd) (fds p)\<rparr>)"

text \<open>\<^verbatim>\<open>prctl(PR_SET_NO_NEW_PRIVS, 1, 0, 0, 0)\<close>\<close>

definition prctl_no_new_privs :: "kernel \<Rightarrow> process \<Rightarrow> int \<times> process" where
  "prctl_no_new_privs k p =
     (if k_nnp_refused k then (- 1, log (Prctl_no_new_privs (- 1)) p)
      else (0, log (Prctl_no_new_privs 0) (p\<lparr>no_new_privs := True\<rparr>)))"

text \<open>\<^verbatim>\<open>prctl(PR_SET_SECCOMP, SECCOMP_MODE_FILTER, &prog)\<close>: an accepted program joins the
  filters of the process and cannot be taken out again.\<close>

definition prctl_seccomp :: "kernel \<Rightarrow> sock_fprog \<Rightarrow> process \<Rightarrow> int \<times> process" where
  "prctl_seccomp k prog p =
     (if k_seccomp_refused k prog then (- 1, log (Prctl_seccomp prog (- 1)) p)
      else (0, log (Prctl_seccomp prog 0) (p\<lparr>seccomp_filters := prog # seccomp_filters p\<rparr>)))"

text \<open>\<^verbatim>\<open>execvp(file, argv)\<close> returns only when it fails; \<open>0\<close> stands for the call that
  does not return. The environment, the descriptors, the attribute and the filters stay
  with the process.\<close>

definition sys_execvp :: "kernel \<Rightarrow> string \<Rightarrow> string list \<Rightarrow> process \<Rightarrow> int \<times> process" where
  "sys_execvp k file av p =
     (if k_exec_refused k file then (- 1, log (Sys_execvp file av (- 1)) p)
      else (0, log (Sys_execvp file av 0) p))"

subsection \<open>main of apply-seccomp.c\<close>

definition usage_fmt :: string where
  "usage_fmt = ''Usage: %s <filter.bpf> <command> [args...]'' @ [CHR 0x0A]"

definition invalid_size_fmt :: string where
  "invalid_size_fmt = ''Invalid BPF filter size: %zd (must be multiple of 8)'' @ [CHR 0x0A]"

text \<open>
  \<^verbatim>\<open>ssize_t filter_size\<close> is an \<open>int\<close>; where \<^verbatim>\<open>%\<close> and \<^verbatim>\<open>/\<close> are applied it is
  positive, so C's truncating operators agree with \<open>mod\<close> and \<open>div\<close>. The assignment to
  \<^verbatim>\<open>unsigned short filter_len\<close> narrows to 16 bits (\<open>word_of_int\<close>). With fewer than three
  arguments \<^verbatim>\<open>argv[0]\<close> is printed; an empty vector prints as \<^verbatim>\<open>(null)\<close>.
\<close>

definition apply_seccomp_main :: "kernel \<Rightarrow> string list \<Rightarrow> process \<Rightarrow> outcome \<times> process" where
  "apply_seccomp_main k argv p0 =
     (if length argv < 3 then
        (Exit 1,
         log (Fprintf_stderr usage_fmt [Str (case argv of [] \<Rightarrow> ''(null)'' | a # _ \<Rightarrow> a)]) p0)
      else
        let filter_path = argv ! 1;
            command_argv = drop 2 argv;
            (fd, p1) = sys_open k filter_path p0
        in
        if fd < 0 then (Exit 1, log (Perror ''Failed to open BPF filter file'') p1)
        else
          let (filter_size, filter_bytes, p2) = sys_read k fd MAX_FILTER_SIZE p1;
              p3 = sys_close fd p2
          in
          if filter_size < 0 then (Exit 1, log (Perror ''Failed to read BPF filter'') p3)
          else if filter_size = 0 then
            (Exit 1, log (Fprintf_stderr (''BPF filter file is empty'' @ [CHR 0x0A]) []) p3)
          else if filter_size mod 8 \<noteq> 0 then
            (Exit 1, log (Fprintf_stderr invalid_size_fmt [Num filter_size]) p3)
          else
            let filter_len = (word_of_int (filter_size div 8) :: 16 word);
                prog = \<lparr>len = filter_len, filter_buf = filter_bytes\<rparr>;
                (rc1, p4) = prctl_no_new_privs k p3
            in
            if rc1 \<noteq> 0 then (Exit 1, log (Perror ''prctl(PR_SET_NO_NEW_PRIVS) failed'') p4)
            else
              let (rc2, p5) = prctl_seccomp k prog p4
              in
              if rc2 \<noteq> 0 then (Exit 1, log (Perror ''prctl(PR_SET_SECCOMP) failed'') p5)
              else
                let (rc3, p6) = sys_execvp k (command_argv ! 0) command_argv p5
                in
                if rc3 = 0 then (Replaced (command_argv ! 0) command_argv, p6)
                else (Exit 1, log (Perror ''execvp failed'') p6))"

text \<open>A process at the start of \<^verbatim>\<open>main\<close>: nothing has happened yet.\<close>

definition start :: "process \<Rightarrow> process" where
  "start p = p\<lparr>trace := []\<rparr>"

text \<open>The events the claims speak of.\<close>

fun is_diagnostic :: "event \<Rightarrow> bool" where
  "is_diagnostic (Fprintf_stderr _ _) = True"
| "is_diagnostic (Perror _) = True"
| "is_diagnostic _ = False"

fun is_nnp_call :: "event \<Rightarrow> bool" where
  "is_nnp_call (Prctl_no_new_privs _) = True"
| "is_nnp_call _ = False"

fun is_install_call :: "event \<Rightarrow> bool" where
  "is_install_call (Prctl_seccomp _ _) = True"
| "is_install_call _ = False"

fun is_exec_call :: "event \<Rightarrow> bool" where
  "is_exec_call (Sys_execvp _ _ _) = True"
| "is_exec_call _ = False"

text \<open>A run is rejected when it returns 1 without any call that changes the privilege
  state of the process.\<close>

definition rejected :: "outcome \<times> process \<Rightarrow> bool" where
  "rejected r = (fst r = Exit 1 \<and> \<not> list_ex is_nnp_call (trace (snd r))
                 \<and> \<not> list_ex is_install_call (trace (snd r)))"

text \<open>The events of reading the filter file: open, one read of the whole buffer, close.\<close>

definition read_filter_events :: "path \<Rightarrow> nat \<Rightarrow> nat \<Rightarrow> event list" where
  "read_filter_events pth fd n =
     [Sys_open pth (int fd), Sys_read (int fd) MAX_FILTER_SIZE (int n), Sys_close (int fd)]"


text \<open>A run of the loader from a fresh trace.\<close>

definition run_loader :: "kernel \<Rightarrow> string list \<Rightarrow> process \<Rightarrow> outcome \<times> process" where
  "run_loader k argv p = apply_seccomp_main k argv (start p)"

section \<open>The filter compiler: seccomp-unix-block.c\<close>

subsection \<open>The policy held by the rule-building library\<close>

text \<open>The two actions and the comparison operators of \<^verbatim>\<open>seccomp.h\<close> that a rule names.\<close>

datatype scmp_action = SCMP_ACT_ALLOW | SCMP_ACT_ERRNO int

datatype scmp_compare =
  SCMP_CMP_NE | SCMP_CMP_LT | SCMP_CMP_LE | SCMP_CMP_EQ | SCMP_CMP_GE | SCMP_CMP_GT

text \<open>\<^verbatim>\<open>struct scmp_arg_cmp\<close>: argument index, operator, 64-bit datum.\<close>

record scmp_arg_cmp =
  cmp_arg :: nat
  cmp_op :: scmp_compare
  cmp_datum :: "64 word"

definition SCMP_A0 :: "scmp_compare \<Rightarrow> 64 word \<Rightarrow> scmp_arg_cmp" where
  "SCMP_A0 c d = \<lparr>cmp_arg = 0, cmp_op = c, cmp_datum = d\<rparr>"

record scmp_rule =
  rule_action :: scmp_action
  rule_syscall :: int
  rule_cmps :: "scmp_arg_cmp list"

text \<open>\<^verbatim>\<open>scmp_filter_ctx\<close>: the default action and the rules added so far, in order.\<close>

record filter_ctx =
  def_action :: scmp_action
  rules :: "scmp_rule list"

text \<open>\<^verbatim>\<open>AF_UNIX\<close> of \<^verbatim>\<open>sys/socket.h\<close> (the source's comment: \<^verbatim>\<open>AF_UNIX = 1\<close>) and
  \<^verbatim>\<open>EPERM\<close> of \<^verbatim>\<open>errno.h\<close>.\<close>

definition AF_UNIX :: "64 word" where
  "AF_UNIX = 1"

definition EPERM :: int where
  "EPERM = 1"

subsection \<open>Files and the environment of a run\<close>

text \<open>Permission bits of a file (\<^verbatim>\<open>mode_t\<close>); \<open>0600\<close> octal is \<open>0x180\<close>.\<close>

type_synonym mode = "16 word"

definition group_other_bits :: mode where
  "group_other_bits = 0x3F"

record inode =
  i_mode :: mode
  i_data :: "byte list"

text \<open>
  What the compiler cannot influence: the number \<^verbatim>\<open>SCMP_SYS(socket)\<close> stands for on the
  architecture of the build, the code generator of the library, the error numbers with
  which the library and the kernel fail (\<open>0\<close>: no failure), whether the one \<^verbatim>\<open>write\<close> of
  the export is short (\<open>Some m\<close>: it puts out at most \<open>m + 1\<close> bytes; \<open>None\<close>: all of them),
  and the umask of the process.
\<close>

record cenv =
  e_nr_socket :: int
  e_bpf_of :: "filter_ctx \<Rightarrow> byte list"
  e_init_fails :: bool
  e_rule_add_errno :: nat
  e_open_errno :: "path \<Rightarrow> nat"
  e_export_errno :: nat
  e_write_short :: "nat option"
  e_umask :: mode

datatype cevent =
    Diag string "fmt_arg list"
  | Open_creat path mode int
  | Export_bpf filter_ctx int int
  | Close int

text \<open>The file system, the descriptors the compiler holds (each with its path), and the
  trace of events.\<close>

record cworld =
  fs :: "path \<rightharpoonup> inode"
  open_fds :: "(nat \<times> path) list"
  ctrace :: "cevent list"

definition clog :: "cevent \<Rightarrow> cworld \<Rightarrow> cworld" where
  "clog e w = w\<lparr>ctrace := ctrace w @ [e]\<rparr>"

subsection \<open>Library and system calls\<close>

definition seccomp_init :: "cenv \<Rightarrow> scmp_action \<Rightarrow> filter_ctx option" where
  "seccomp_init env a =
     (if e_init_fails env then None else Some \<lparr>def_action = a, rules = []\<rparr>)"

text \<open>\<^verbatim>\<open>seccomp_rule_add(ctx, action, syscall, arg_cnt, ...)\<close>: \<open>0\<close> and the rule added,
  or a negative error number and the context as it was.\<close>

definition seccomp_rule_add ::
  "cenv \<Rightarrow> filter_ctx \<Rightarrow> scmp_action \<Rightarrow> int \<Rightarrow> nat \<Rightarrow> scmp_arg_cmp list \<Rightarrow> int \<times> filter_ctx" where
  "seccomp_rule_add env ctx a sys arg_cnt cmps =
     (if e_rule_add_errno env \<noteq> 0 then (- int (e_rule_add_errno env), ctx)
      else (0, ctx\<lparr>rules := rules ctx @
                  [\<lparr>rule_action = a, rule_syscall = sys, rule_cmps = take arg_cnt cmps\<rparr>]\<rparr>))"

text \<open>
  \<^verbatim>\<open>open(path, O_CREAT | O_WRONLY | O_TRUNC, mode)\<close>: a file that does not exist is
  created empty with the mode asked for, less the bits of the umask; a file that exists
  is emptied and keeps the mode it has.
\<close>

definition sys_open_creat :: "cenv \<Rightarrow> path \<Rightarrow> mode \<Rightarrow> cworld \<Rightarrow> int \<times> cworld" where
  "sys_open_creat env pth m w =
     (if e_open_errno env pth \<noteq> 0 then (- 1, clog (Open_creat pth m (- 1)) w)
      else
        let fd = lowest_free_fd (map fst (open_fds w));
            node = (case fs w pth of
                      None \<Rightarrow> \<lparr>i_mode = m AND NOT (e_umask env), i_data = []\<rparr>
                    | Some f \<Rightarrow> f\<lparr>i_data := []\<rparr>)
        in (int fd,
            clog (Open_creat pth m (int fd))
              (w\<lparr>fs := (fs w)(pth \<mapsto> node), open_fds := (fd, pth) # open_fds w\<rparr>)))"

text \<open>Writing \<open>bs\<close> at offset 0 of a file replaces its first \<open>length bs\<close> bytes.\<close>

definition write_at_start :: "byte list \<Rightarrow> path \<Rightarrow> cworld \<Rightarrow> cworld" where
  "write_at_start bs pth w =
     (case fs w pth of
        None \<Rightarrow> w
      | Some f \<Rightarrow> w\<lparr>fs := (fs w)(pth \<mapsto> f\<lparr>i_data := bs @ drop (length bs) (i_data f)\<rparr>)\<rparr>)"

text \<open>
  \<^verbatim>\<open>seccomp_export_bpf(ctx, fd)\<close> generates the program of the context and hands it to
  one \<^verbatim>\<open>write\<close> on the descriptor. When the generation or the write fails, nothing is
  written and the result is a negative error number. Otherwise the result is \<open>0\<close>,
  whether the write has put out the whole program or only its beginning: the library
  does not compare the number of bytes written with the size of the program.
\<close>

definition written_bytes :: "cenv \<Rightarrow> byte list \<Rightarrow> byte list" where
  "written_bytes env bs = (case e_write_short env of None \<Rightarrow> bs | Some m \<Rightarrow> take (Suc m) bs)"

definition seccomp_export_bpf :: "cenv \<Rightarrow> filter_ctx \<Rightarrow> int \<Rightarrow> cworld \<Rightarrow> int \<times> cworld" where
  "seccomp_export_bpf env ctx fd w =
     (case (if fd < 0 then None else map_of (open_fds w) (nat fd)) of
        None \<Rightarrow> (- 9, clog (Export_bpf ctx fd (- 9)) w)
      | Some pth \<Rightarrow>
          if e_export_errno env \<noteq> 0 then
            (- int (e_export_errno env),
             clog (Export_bpf ctx fd (- int (e_export_errno env))) w)
          else
            (0, clog (Export_bpf ctx fd 0)
                  (write_at_start (written_bytes env (e_bpf_of env ctx)) pth w)))"

definition sys_close_c :: "int \<Rightarrow> cworld \<Rightarrow> cworld" where
  "sys_close_c fd w =
     clog (Close fd) (w\<lparr>open_fds := filter (\<lambda>(d, pth). int d \<noteq> fd) (open_fds w)\<rparr>)"

subsection \<open>main of seccomp-unix-block.c\<close>

text \<open>\<^verbatim>\<open>seccomp_release\<close> only frees the context; it has no effect that is modelled.\<close>

definition seccomp_unix_block_main :: "cenv \<Rightarrow> string list \<Rightarrow> cworld \<Rightarrow> int \<times> cworld" where
  "seccomp_unix_block_main env argv w =
     (if length argv \<noteq> 2 then
        (1, clog (Diag (''Usage: %s <output-file>'' @ [CHR 0x0A])
                    [Str (case argv of [] \<Rightarrow> ''(null)'' | a # _ \<Rightarrow> a)]) w)
      else
        let output_file = argv ! 1
        in
        case seccomp_init env SCMP_ACT_ALLOW of
          None \<Rightarrow>
            (1, clog (Diag (''Error: Failed to initialize seccomp context'' @ [CHR 0x0A]) []) w)
        | Some ctx \<Rightarrow>
            let (rc, ctx1) = seccomp_rule_add env ctx (SCMP_ACT_ERRNO EPERM) (e_nr_socket env) 1
                               [SCMP_A0 SCMP_CMP_EQ AF_UNIX]
            in
            if rc < 0 then
              (1, clog (Diag (''Error: Failed to add seccomp rule: %s'' @ [CHR 0x0A])
                          [Strerror (- rc)]) w)
            else
              let (fd, w1) = sys_open_creat env output_file 0x180 w
              in
              if fd < 0 then
                (1, clog (Diag (''Error: Failed to open output file: %s'' @ [CHR 0x0A])
                            [Strerror (int (e_open_errno env output_file))]) w1)
              else
                let (rc2, w2) = seccomp_export_bpf env ctx1 fd w1
                in
                if rc2 < 0 then
                  (1, sys_close_c fd
                        (clog (Diag (''Error: Failed to export seccomp filter: %s'' @ [CHR 0x0A])
                                 [Strerror (- rc2)]) w2))
                else (0, sys_close_c fd w2))"

text \<open>A run of the compiler from a fresh trace.\<close>

definition run_compiler :: "cenv \<Rightarrow> string list \<Rightarrow> cworld \<Rightarrow> int \<times> cworld" where
  "run_compiler env argv w = seccomp_unix_block_main env argv (w\<lparr>ctrace := []\<rparr>)"

section \<open>Sample inputs\<close>

text \<open>Concrete kernels, processes and environments on which the theorems below are run.\<close>

text \<open>The instruction \<^verbatim>\<open>BPF_RET | BPF_K\<close> with \<^verbatim>\<open>SECCOMP_RET_ALLOW\<close> (\<open>0x7fff0000\<close>), as its
  eight bytes lie in a file on a little-endian machine; and the instruction
  \<^verbatim>\<open>BPF_LD | BPF_W | BPF_IMM\<close> with the constant \<open>0\<close>, eight zero bytes.\<close>

definition ret_allow :: "byte list" where
  "ret_allow = [0x06, 0, 0, 0, 0, 0, 0xFF, 0x7F]"

definition ld_zero :: "byte list" where
  "ld_zero = [0, 0, 0, 0, 0, 0, 0, 0]"

text \<open>A program of \<open>n\<close> such return instructions.\<close>

definition ret_allow_program :: "nat \<Rightarrow> byte list" where
  "ret_allow_program n = concat (replicate n ret_allow)"

text \<open>
  A kernel that holds one file, reads it in full, and is strict about programs: it
  accepts a program only when it is not empty and every instruction of it is
  \<^verbatim>\<open>RET ALLOW\<close>. (Linux accepts such a program, and refuses one that does not end in a
  return.)
\<close>

definition sample_kernel :: "byte list \<Rightarrow> kernel" where
  "sample_kernel bs =
     \<lparr>k_files = [''filter.bpf'' \<mapsto> bs], k_read_error = False, k_read_short = None,
      k_nnp_refused = False,
      k_seccomp_refused =
        (\<lambda>prog. len prog = 0 \<or> filter_buf prog \<noteq> ret_allow_program (unat (len prog))),
      k_exec_refused = (\<lambda>file. False)\<rparr>"

definition sample_process :: process where
  "sample_process =
     \<lparr>fds = [(0, []), (1, []), (2, [])], environ = [''PATH=/usr/bin''],
      no_new_privs = False, seccomp_filters = [], trace = []\<rparr>"

definition sample_argv :: "string list" where
  "sample_argv = [''apply-seccomp'', ''filter.bpf'', ''true'']"

text \<open>A stand-in for the code generator of the library: one return instruction for each
  rule and one for the default action.\<close>

definition toy_bpf_of :: "filter_ctx \<Rightarrow> byte list" where
  "toy_bpf_of ctx =
     concat (map (\<lambda>r. [0x06, 0, 0, 0, 0x01, 0, 0x05, 0]) (rules ctx))
       @ [0x06, 0, 0, 0, 0, 0, 0xFF, 0x7F]"

text \<open>\<open>0x12\<close> is the umask \<open>022\<close>.\<close>

definition sample_env :: cenv where
  "sample_env =
     \<lparr>e_nr_socket = 41, e_bpf_of = toy_bpf_of, e_init_fails = False, e_rule_add_errno = 0,
      e_open_errno = (\<lambda>pth. 0), e_export_errno = 0, e_write_short = None, e_umask = 0x12\<rparr>"

definition empty_world :: cworld where
  "empty_world = \<lparr>fs = Map.empty, open_fds = [], ctrace = []\<rparr>"

text \<open>A world in which the destination exists already, readable by all (\<open>0644\<close> is
  \<open>0x1A4\<close>) and longer than the program to be written.\<close>

definition world_with_output :: cworld where
  "world_with_output =
     \<lparr>fs = [''out.bpf'' \<mapsto> \<lparr>i_mode = 0x1A4, i_data = replicate 24 0xAA\<rparr>],
      open_fds = [], ctrace = []\<rparr>"

section \<open>Properties of the loader\<close>

subsection \<open>The paths through main\<close>

lemma lowest_free_fd_fresh: "lowest_free_fd ds \<notin> set ds"
proof (cases "find (\<lambda>n. n \<notin> set ds) [0..<Suc (length ds)]")
  case None
  have "Suc (sum_list ds) \<notin> set ds"
    using member_le_sum_list [of "Suc (sum_list ds)" ds] by auto
  with None show ?thesis by (simp add: lowest_free_fd_def)
next
  case (Some n)
  then have "n \<notin> set ds" by (auto simp: find_Some_iff)
  with Some show ?thesis by (simp add: lowest_free_fd_def)
qed

lemma close_after_read:
  "d \<notin> fst ` set xs \<Longrightarrow>
   filter (\<lambda>(d', c). d' \<noteq> d) (map (\<lambda>(d', c). if d' = d then (d', drop n c) else (d', c)) xs) = xs"
  by (induction xs) auto

lemma main_unfold_ok:
  fixes k :: kernel and argv :: "string list" and p :: process and bs :: "byte list"
  assumes "3 \<le> length argv" "k_files k (argv ! 1) = Some bs" "\<not> k_read_error k"
  defines "buf \<equiv> take (read_len k MAX_FILTER_SIZE) bs"
  defines "fd \<equiv> lowest_free_fd (map fst (fds p))"
  defines "p3 \<equiv> p\<lparr>trace := trace p @ read_filter_events (argv ! 1) fd (length buf)\<rparr>"
  shows "apply_seccomp_main k argv p =
     (if int (length buf) = 0 then
            (Exit 1, log (Fprintf_stderr (''BPF filter file is empty'' @ [CHR 0x0A]) []) p3)
          else if int (length buf) mod 8 \<noteq> 0 then
            (Exit 1, log (Fprintf_stderr invalid_size_fmt [Num (int (length buf))]) p3)
          else
            let prog = \<lparr>len = (word_of_int (int (length buf) div 8) :: 16 word), filter_buf = buf\<rparr>;
                (rc1, p4) = prctl_no_new_privs k p3
            in
            if rc1 \<noteq> 0 then (Exit 1, log (Perror ''prctl(PR_SET_NO_NEW_PRIVS) failed'') p4)
            else
              let (rc2, p5) = prctl_seccomp k prog p4
              in
              if rc2 \<noteq> 0 then (Exit 1, log (Perror ''prctl(PR_SET_SECCOMP) failed'') p5)
              else
                let (rc3, p6) = sys_execvp k (argv ! 2) (drop 2 argv) p5
                in
                if rc3 = 0 then (Replaced (argv ! 2) (drop 2 argv), p6)
                else (Exit 1, log (Perror ''execvp failed'') p6))"
proof -
  have fresh: "fd \<notin> fst ` set (fds p)"
    using lowest_free_fd_fresh [of "map fst (fds p)"] by (simp add: fd_def)
  have op: "sys_open k (argv ! 1) p = (int fd, log (Sys_open (argv ! 1) (int fd)) (p\<lparr>fds := (fd, bs) # fds p\<rparr>))"
    using assms(2) by (simp add: sys_open_def fd_def Let_def)
  have r: "sys_close (int fd) (snd (snd (sys_read k (int fd) MAX_FILTER_SIZE
             (log (Sys_open (argv ! 1) (int fd)) (p\<lparr>fds := (fd, bs) # fds p\<rparr>))))) = p3"
    using assms(3) fresh
    by (simp add: sys_read_def sys_close_def log_def Let_def buf_def p3_def read_filter_events_def
        close_after_read)
  have r1: "fst (sys_read k (int fd) MAX_FILTER_SIZE
             (log (Sys_open (argv ! 1) (int fd)) (p\<lparr>fds := (fd, bs) # fds p\<rparr>))) = int (length buf)"
    using assms(3) by (simp add: sys_read_def log_def Let_def buf_def)
  have r2: "fst (snd (sys_read k (int fd) MAX_FILTER_SIZE
             (log (Sys_open (argv ! 1) (int fd)) (p\<lparr>fds := (fd, bs) # fds p\<rparr>)))) = buf"
    using assms(3) by (simp add: sys_read_def log_def Let_def buf_def)
  have d: "int (length buf) div 8 = int (length buf div 8)"
    by (simp add: zdiv_int)
  have m: "(int (length buf) mod 8 = 0) = (length buf mod 8 = 0)"
    by presburger
  have n: "\<not> length argv < 3" "drop 2 argv ! 0 = argv ! 2"
    using assms(1) by simp_all
  show ?thesis
    unfolding apply_seccomp_main_def
    by (simp only: n if_False Let_def split_beta op fst_conv snd_conv r r1 r2 of_nat_less_0_iff)
qed

lemma main_usage:
  "length argv < 3 \<Longrightarrow>
   apply_seccomp_main k argv p =
     (Exit 1, log (Fprintf_stderr usage_fmt [Str (case argv of [] \<Rightarrow> ''(null)'' | a # _ \<Rightarrow> a)]) p)"
  by (simp add: apply_seccomp_main_def)

lemma main_open_fails:
  "3 \<le> length argv \<Longrightarrow> k_files k (argv ! 1) = None \<Longrightarrow>
   apply_seccomp_main k argv p =
     (Exit 1, log (Perror ''Failed to open BPF filter file'') (log (Sys_open (argv ! 1) (- 1)) p))"
  by (simp add: apply_seccomp_main_def sys_open_def)

lemma main_read_fails:
  fixes k :: kernel and argv :: "string list" and p :: process and bs :: "byte list"
  assumes "3 \<le> length argv" "k_files k (argv ! 1) = Some bs" "k_read_error k"
  defines "fd \<equiv> lowest_free_fd (map fst (fds p))"
  shows "apply_seccomp_main k argv p =
     (Exit 1, log (Perror ''Failed to read BPF filter'')
        (p\<lparr>trace := trace p @ [Sys_open (argv ! 1) (int fd),
             Sys_read (int fd) MAX_FILTER_SIZE (- 1), Sys_close (int fd)]\<rparr>))"
proof -
  have fresh: "fd \<notin> fst ` set (fds p)"
    using lowest_free_fd_fresh [of "map fst (fds p)"] by (simp add: fd_def)
  then have keep: "filter (\<lambda>(d, c). d \<noteq> fd) (fds p) = fds p"
    by (force simp: filter_id_conv)
  have op: "sys_open k (argv ! 1) p = (int fd, log (Sys_open (argv ! 1) (int fd)) (p\<lparr>fds := (fd, bs) # fds p\<rparr>))"
    using assms(2) by (simp add: sys_open_def fd_def Let_def)
  have rd: "sys_read k (int fd) MAX_FILTER_SIZE
               (log (Sys_open (argv ! 1) (int fd)) (p\<lparr>fds := (fd, bs) # fds p\<rparr>)) =
             (- 1, [], log (Sys_read (int fd) MAX_FILTER_SIZE (- 1))
               (log (Sys_open (argv ! 1) (int fd)) (p\<lparr>fds := (fd, bs) # fds p\<rparr>)))"
    using assms(3) by (simp add: sys_read_def)
  have cl: "sys_close (int fd) (log (Sys_read (int fd) MAX_FILTER_SIZE (- 1))
               (log (Sys_open (argv ! 1) (int fd)) (p\<lparr>fds := (fd, bs) # fds p\<rparr>))) =
            p\<lparr>trace := trace p @ [Sys_open (argv ! 1) (int fd),
                 Sys_read (int fd) MAX_FILTER_SIZE (- 1), Sys_close (int fd)]\<rparr>"
    using keep fresh by (simp add: sys_close_def log_def)
  have n: "\<not> length argv < 3" "\<not> int fd < 0" "(- 1 :: int) < 0"
    using assms(1) by simp_all
  show ?thesis
    unfolding apply_seccomp_main_def
    by (simp only: n if_False if_True Let_def split_beta op rd cl fst_conv snd_conv)
qed

lemma int_mod8: "(int n mod 8 = 0) = (n mod 8 = 0)" "(8 dvd int n) = (n mod 8 = 0)"
  by presburger+

text \<open>A read of 4096 bytes returns at most 4096 bytes, and none only at the end of the
  file.\<close>

lemma read_len_le: "read_len k c \<le> c"
  by (simp add: read_len_def split: option.splits)

lemma read_len_pos: "0 < c \<Longrightarrow> 0 < read_len k c"
  by (simp add: read_len_def split: option.splits)

lemma min_read_le: "min (length bs) (read_len k 4096) \<le> 4096"
  using read_len_le [of k 4096] by simp

lemma read_len_4096_pos: "0 < read_len k 4096"
  by (rule read_len_pos) simp

lemma min_read0: "(min (length bs) (read_len k 4096) = 0) = (bs = [])"
  using read_len_4096_pos [of k] by (cases bs) auto

lemmas loader_calls = int_mod8 min_read0 read_len_4096_pos MAX_FILTER_SIZE_def prctl_no_new_privs_def prctl_seccomp_def sys_execvp_def log_def
  start_def read_filter_events_def Let_def

text \<open>An instruction count of at most 512 fits the 16-bit length field.\<close>

lemma insn_count_fits:
  "n \<le> 4096 \<Longrightarrow> unat (word_of_int (int n div 8) :: 16 word) = n div 8"
proof -
  assume n: "n \<le> 4096"
  have "int n div 8 = int (n div 8)" by (simp add: zdiv_int)
  moreover have "n div 8 < 2 ^ 16" using n by simp
  ultimately show ?thesis by (simp add: unat_of_nat)
qed

lemma loader_cases:
  fixes k :: kernel and argv :: "string list"
  obtains (usage) "length argv < 3"
  | (noopen) "3 \<le> length argv" "k_files k (argv ! 1) = None"
  | (noread) bs where "3 \<le> length argv" "k_files k (argv ! 1) = Some bs" "k_read_error k"
  | (ok) bs where "3 \<le> length argv" "k_files k (argv ! 1) = Some bs" "\<not> k_read_error k"
  by (cases "k_files k (argv ! 1)") force+


subsection \<open>Sample runs\<close>

lemma sample_fd: "lowest_free_fd [0, Suc 0, 2] = 3" "lowest_free_fd [] = 0"
  by code_simp+

lemma length_ret_allow_program: "length (ret_allow_program n) = 8 * n"
  by (induction n) (simp_all add: ret_allow_program_def ret_allow_def)

lemma ret_allow_program_simps:
  "ret_allow_program (Suc 0) = ret_allow"
  "ret_allow_program 1 = ret_allow"
  "length ret_allow = 8"
  "length ld_zero = 8"
  "ld_zero \<noteq> ret_allow"
  "ret_allow \<noteq> []"
  by (simp_all add: ret_allow_program_def ret_allow_def ld_zero_def)

lemma ret_allow_program_nonempty: "0 < n \<Longrightarrow> ret_allow_program n \<noteq> []"
  using length_ret_allow_program [of n] by auto

lemma take_ret_allow_program:
  "take 4096 (ret_allow_program 512 @ bs) = ret_allow_program 512"
  by (simp add: length_ret_allow_program)

lemma sample_process_fields:
  "fds sample_process = [(0, []), (1, []), (2, [])]"
  "environ sample_process = [''PATH=/usr/bin'']"
  "no_new_privs sample_process = False"
  "seccomp_filters sample_process = []"
  by (simp_all add: sample_process_def)

lemma sample_argv_fields:
  "length sample_argv = 3" "sample_argv ! 1 = ''filter.bpf''" "sample_argv ! 2 = ''true''"
  "drop 2 sample_argv = [''true'']"
  by (simp_all add: sample_argv_def)

lemmas sample_loader_defs = run_loader_def sample_kernel_def sample_argv_def sample_process_def
  start_def main_unfold_ok main_usage read_filter_events_def prctl_no_new_privs_def
  prctl_seccomp_def sys_execvp_def log_def Let_def MAX_FILTER_SIZE_def sample_fd read_len_def
  invalid_size_fmt_def usage_fmt_def ret_allow_program_simps length_ret_allow_program
  take_ret_allow_program

text \<open>A filter of one instruction \<^verbatim>\<open>RET ALLOW\<close> is installed and the command runs.\<close>

lemma sample_run_ok:
  "run_loader (sample_kernel ret_allow) sample_argv sample_process =
     (Replaced ''true'' [''true''],
      \<lparr>fds = [(0, []), (1, []), (2, [])], environ = [''PATH=/usr/bin''],
       no_new_privs = True,
       seccomp_filters = [\<lparr>len = 1, filter_buf = ret_allow\<rparr>],
       trace = [Sys_open ''filter.bpf'' 3, Sys_read 3 4096 8, Sys_close 3,
                Prctl_no_new_privs 0,
                Prctl_seccomp \<lparr>len = 1, filter_buf = ret_allow\<rparr> 0,
                Sys_execvp ''true'' [''true''] 0]\<rparr>)"
  by (simp add: sample_loader_defs)

text \<open>A filter of one load instruction has no return; the kernel refuses it.\<close>

lemma sample_run_refused:
  "run_loader (sample_kernel ld_zero) sample_argv sample_process =
     (Exit 1,
      \<lparr>fds = [(0, []), (1, []), (2, [])], environ = [''PATH=/usr/bin''],
       no_new_privs = True, seccomp_filters = [],
       trace = [Sys_open ''filter.bpf'' 3, Sys_read 3 4096 8, Sys_close 3,
                Prctl_no_new_privs 0,
                Prctl_seccomp \<lparr>len = 1, filter_buf = ld_zero\<rparr> (- 1),
                Perror ''prctl(PR_SET_SECCOMP) failed'']\<rparr>)"
  by (simp add: sample_loader_defs)

text \<open>A file of five bytes, and a call without a command.\<close>

lemma sample_run_odd:
  "run_loader (sample_kernel (take 5 ret_allow)) sample_argv sample_process =
     (Exit 1,
      \<lparr>fds = [(0, []), (1, []), (2, [])], environ = [''PATH=/usr/bin''],
       no_new_privs = False, seccomp_filters = [],
       trace = [Sys_open ''filter.bpf'' 3, Sys_read 3 4096 5, Sys_close 3,
                Fprintf_stderr invalid_size_fmt [Num 5]]\<rparr>)"
  by (simp add: sample_loader_defs)

lemma sample_run_usage:
  "run_loader (sample_kernel ret_allow) [''apply-seccomp'', ''filter.bpf''] sample_process =
     (Exit 1,
      \<lparr>fds = [(0, []), (1, []), (2, [])], environ = [''PATH=/usr/bin''],
       no_new_privs = False, seccomp_filters = [],
       trace = [Fprintf_stderr usage_fmt [Str ''apply-seccomp'']]\<rparr>)"
  by (simp add: sample_loader_defs)

text \<open>A file of 513 instructions \<^verbatim>\<open>RET ALLOW\<close>, 4104 bytes: 4096 of them are read, pass the
  checks and are installed as a program of 512 instructions.\<close>

lemma sample_run_oversized:
  "run_loader (sample_kernel (ret_allow_program 512 @ ret_allow)) sample_argv sample_process =
     (Replaced ''true'' [''true''],
      \<lparr>fds = [(0, []), (1, []), (2, [])], environ = [''PATH=/usr/bin''],
       no_new_privs = True,
       seccomp_filters = [\<lparr>len = 512, filter_buf = ret_allow_program 512\<rparr>],
       trace = [Sys_open ''filter.bpf'' 3, Sys_read 3 4096 4096, Sys_close 3,
                Prctl_no_new_privs 0,
                Prctl_seccomp \<lparr>len = 512, filter_buf = ret_allow_program 512\<rparr> 0,
                Sys_execvp ''true'' [''true''] 0]\<rparr>)"
  by (simp add: sample_loader_defs)

text \<open>A file of 512 such instructions and four bytes more, 4100 bytes.\<close>

lemma sample_run_stray_bytes:
  "run_loader (sample_kernel (ret_allow_program 512 @ [0, 0, 0, 0])) sample_argv sample_process =
     (Replaced ''true'' [''true''],
      \<lparr>fds = [(0, []), (1, []), (2, [])], environ = [''PATH=/usr/bin''],
       no_new_privs = True,
       seccomp_filters = [\<lparr>len = 512, filter_buf = ret_allow_program 512\<rparr>],
       trace = [Sys_open ''filter.bpf'' 3, Sys_read 3 4096 4096, Sys_close 3,
                Prctl_no_new_privs 0,
                Prctl_seccomp \<lparr>len = 512, filter_buf = ret_allow_program 512\<rparr> 0,
                Sys_execvp ''true'' [''true''] 0]\<rparr>)"
  by (simp add: sample_loader_defs)

subsection \<open>The claims about the loader\<close>

text \<open>
  Claim C1 fails on the code for an input longer than the maximum. The file here holds
  513 instructions \<^verbatim>\<open>RET ALLOW\<close>, one instruction more than 4096 bytes. The one read
  returns 4096 bytes; none of the checks of \<^verbatim>\<open>main\<close> looks at what is left in the file, so
  the run does not return 1: the first 512 instructions are installed as the filter and
  the command is executed. In the same way a file of 4100 bytes, whose length is not a
  multiple of 8, passes the check of the length.
\<close>

theorem oversized_filter_is_truncated_and_installed:
  "length (ret_allow_program 512 @ ret_allow) = MAX_FILTER_SIZE + 8
   \<and> fst (run_loader (sample_kernel (ret_allow_program 512 @ ret_allow)) sample_argv
            sample_process) = Replaced ''true'' [''true'']
   \<and> trace (snd (run_loader (sample_kernel (ret_allow_program 512 @ ret_allow)) sample_argv
                    sample_process))
       = [Sys_open ''filter.bpf'' 3, Sys_read 3 4096 4096, Sys_close 3, Prctl_no_new_privs 0,
          Prctl_seccomp \<lparr>len = 512, filter_buf = ret_allow_program 512\<rparr> 0,
          Sys_execvp ''true'' [''true''] 0]
   \<and> seccomp_filters (snd (run_loader (sample_kernel (ret_allow_program 512 @ ret_allow))
                               sample_argv sample_process))
       = [\<lparr>len = 512, filter_buf = ret_allow_program 512\<rparr>]
   \<and> length (ret_allow_program 512 @ [0, 0, 0, 0]) mod 8 = 4
   \<and> fst (run_loader (sample_kernel (ret_allow_program 512 @ [0, 0, 0, 0])) sample_argv
            sample_process) = Replaced ''true'' [''true'']"
  by (simp add: sample_run_oversized sample_run_stray_bytes MAX_FILTER_SIZE_def
      ret_allow_program_simps length_ret_allow_program)

text \<open>
  Claim C2: the loader is fail-closed. A run ends with exit code 1 or with the process
  image replaced, never otherwise. A run that ends with exit code 1 has written a
  diagnostic as its last act. Every call of \<^verbatim>\<open>execvp\<close> comes after a call that installed
  the filter with success. When the image is replaced, the filter is among the filters of
  the process, and every step before has succeeded: the arguments, the open, the read,
  the length checks on the bytes read, the attribute, the installation and the exec
  itself.
\<close>

theorem loader_fail_closed:
  "(fst (run_loader k argv p) = Exit 1 \<or> (\<exists>f av. fst (run_loader k argv p) = Replaced f av))
   \<and> (fst (run_loader k argv p) = Exit 1 \<longrightarrow>
         trace (snd (run_loader k argv p)) \<noteq> []
         \<and> is_diagnostic (last (trace (snd (run_loader k argv p)))))
   \<and> (\<forall>pre e post. trace (snd (run_loader k argv p)) = pre @ [e] @ post \<and> is_exec_call e \<longrightarrow>
         (\<exists>prog. Prctl_seccomp prog 0 \<in> set pre))
   \<and> (\<forall>f av. fst (run_loader k argv p) = Replaced f av \<longrightarrow>
         (\<exists>prog. seccomp_filters (snd (run_loader k argv p)) = prog # seccomp_filters p
            \<and> \<not> k_seccomp_refused k prog)
         \<and> 3 \<le> length argv \<and> \<not> k_read_error k \<and> \<not> k_nnp_refused k
         \<and> \<not> k_exec_refused k (argv ! 2)
         \<and> (\<exists>bs. k_files k (argv ! 1) = Some bs
               \<and> 0 < length (take (read_len k MAX_FILTER_SIZE) bs)
               \<and> length (take (read_len k MAX_FILTER_SIZE) bs) mod 8 = 0))"
proof (cases rule: loader_cases [where k = k and argv = argv])
  case usage
  then show ?thesis
    by (auto simp add: run_loader_def main_usage loader_calls Cons_eq_append_conv)
next
  case noopen
  then show ?thesis
    by (auto simp add: run_loader_def main_open_fails loader_calls Cons_eq_append_conv)
next
  case (noread bs)
  then show ?thesis
    by (auto simp add: run_loader_def main_read_fails loader_calls Cons_eq_append_conv)
next
  case (ok bs)
  then show ?thesis
    by (auto simp add: run_loader_def main_unfold_ok loader_calls Cons_eq_append_conv)
qed

theorem loader_fail_closed_witness:
  "fst (run_loader (sample_kernel ret_allow) sample_argv sample_process)
     = Replaced ''true'' [''true'']
   \<and> trace (snd (run_loader (sample_kernel ret_allow) sample_argv sample_process))
     = [Sys_open ''filter.bpf'' 3, Sys_read 3 4096 8, Sys_close 3, Prctl_no_new_privs 0,
        Prctl_seccomp \<lparr>len = 1, filter_buf = ret_allow\<rparr> 0]
       @ [Sys_execvp ''true'' [''true''] 0] @ []
   \<and> is_exec_call (Sys_execvp ''true'' [''true''] 0)
   \<and> (\<exists>prog. Prctl_seccomp prog 0
          \<in> set [Sys_open ''filter.bpf'' 3, Sys_read 3 4096 8, Sys_close 3, Prctl_no_new_privs 0,
                 Prctl_seccomp \<lparr>len = 1, filter_buf = ret_allow\<rparr> 0])
   \<and> (\<exists>prog. seccomp_filters (snd (run_loader (sample_kernel ret_allow)
                                      sample_argv sample_process))
          = prog # seccomp_filters sample_process)
   \<and> fst (run_loader (sample_kernel ld_zero) sample_argv sample_process) = Exit 1
   \<and> is_diagnostic (last (trace (snd (run_loader (sample_kernel ld_zero)
                                         sample_argv sample_process))))"
  using loader_fail_closed [of "sample_kernel ret_allow" sample_argv sample_process]
        loader_fail_closed [of "sample_kernel ld_zero" sample_argv sample_process]
  by (simp add: sample_run_ok sample_run_refused sample_process_fields)

text \<open>
  Claim C3: wherever a run calls the kernel to install the filter, the call that set the
  no-new-privileges attribute has returned 0 before, no installation was tried earlier,
  and the attribute is set in the process. This holds whatever the installation call
  returns.
\<close>

theorem nnp_before_install:
  assumes "trace (snd (run_loader k argv p)) = pre @ [Prctl_seccomp prog rc] @ post"
  shows "Prctl_no_new_privs 0 \<in> set pre \<and> \<not> list_ex is_install_call pre
         \<and> no_new_privs (snd (run_loader k argv p))"
proof (cases rule: loader_cases [where k = k and argv = argv])
  case usage
  with assms show ?thesis
    by (auto simp add: run_loader_def main_usage loader_calls Cons_eq_append_conv)
next
  case noopen
  with assms show ?thesis
    by (auto simp add: run_loader_def main_open_fails loader_calls Cons_eq_append_conv)
next
  case (noread bs)
  with assms show ?thesis
    by (auto simp add: run_loader_def main_read_fails loader_calls Cons_eq_append_conv)
next
  case (ok bs)
  with assms show ?thesis
    by (auto simp add: run_loader_def main_unfold_ok loader_calls Cons_eq_append_conv
        split: if_splits)
qed

theorem nnp_before_install_witness:
  "trace (snd (run_loader (sample_kernel ld_zero) sample_argv sample_process))
     = [Sys_open ''filter.bpf'' 3, Sys_read 3 4096 8, Sys_close 3, Prctl_no_new_privs 0]
       @ [Prctl_seccomp \<lparr>len = 1, filter_buf = ld_zero\<rparr> (- 1)]
       @ [Perror ''prctl(PR_SET_SECCOMP) failed'']
   \<and> Prctl_no_new_privs 0
       \<in> set [Sys_open ''filter.bpf'' 3, Sys_read 3 4096 8, Sys_close 3, Prctl_no_new_privs 0]
   \<and> no_new_privs (snd (run_loader (sample_kernel ld_zero) sample_argv sample_process))"
  using nnp_before_install [of "sample_kernel ld_zero" sample_argv sample_process
          "[Sys_open ''filter.bpf'' 3, Sys_read 3 4096 8, Sys_close 3, Prctl_no_new_privs 0]"
          "\<lparr>len = 1, filter_buf = ld_zero\<rparr>" "- 1"
          "[Perror ''prctl(PR_SET_SECCOMP) failed'']"]
  by (simp add: sample_run_refused)

text \<open>
  Claim C8: the request is passed through as it came. Every call of \<^verbatim>\<open>execvp\<close> names
  \<^verbatim>\<open>argv[2]\<close> as the file and \<^verbatim>\<open>argv[2]\<close> onward as the argument vector. When the image
  is replaced, the environment and the open descriptors of the process are those it
  started with: the descriptor of the filter file has been closed.
\<close>

theorem exec_request_passthrough:
  "(\<forall>f av rc. Sys_execvp f av rc \<in> set (trace (snd (run_loader k argv p))) \<longrightarrow>
        3 \<le> length argv \<and> f = argv ! 2 \<and> av = drop 2 argv)
   \<and> (\<forall>f av. fst (run_loader k argv p) = Replaced f av \<longrightarrow>
        3 \<le> length argv \<and> f = argv ! 2 \<and> av = drop 2 argv
        \<and> environ (snd (run_loader k argv p)) = environ p
        \<and> fds (snd (run_loader k argv p)) = fds p)"
proof (cases rule: loader_cases [where k = k and argv = argv])
  case usage
  then show ?thesis
    by (auto simp add: run_loader_def main_usage loader_calls)
next
  case noopen
  then show ?thesis
    by (auto simp add: run_loader_def main_open_fails loader_calls)
next
  case (noread bs)
  then show ?thesis
    by (auto simp add: run_loader_def main_read_fails loader_calls)
next
  case (ok bs)
  then show ?thesis
    by (auto simp add: run_loader_def main_unfold_ok loader_calls split: if_splits)
qed

theorem exec_request_passthrough_witness:
  "Sys_execvp ''true'' [''true''] 0
     \<in> set (trace (snd (run_loader (sample_kernel ret_allow) sample_argv sample_process)))
   \<and> fst (run_loader (sample_kernel ret_allow) sample_argv sample_process)
       = Replaced (sample_argv ! 2) (drop 2 sample_argv)
   \<and> environ (snd (run_loader (sample_kernel ret_allow) sample_argv sample_process))
       = environ sample_process
   \<and> fds (snd (run_loader (sample_kernel ret_allow) sample_argv sample_process))
       = fds sample_process"
  using exec_request_passthrough [of "sample_kernel ret_allow" sample_argv sample_process]
  by (simp add: sample_run_ok sample_argv_fields sample_process_fields)

text \<open>
  Claim C9: a run that fails up to and including validation (too few arguments, the file
  cannot be opened, the read fails, nothing was read, or the number of bytes read, be the
  read short or not, is not a multiple of 8) returns 1 and leaves the privilege state as it was: no call sets the
  attribute, no call installs a filter, and the attribute and the filters of the process
  are unchanged.
\<close>

theorem early_failure_no_privilege_change:
  assumes "length argv < 3 \<or> k_files k (argv ! 1) = None \<or> k_read_error k
           \<or> (\<exists>bs. k_files k (argv ! 1) = Some bs
                \<and> (length (take (read_len k MAX_FILTER_SIZE) bs) = 0
                     \<or> length (take (read_len k MAX_FILTER_SIZE) bs) mod 8 \<noteq> 0))"
  shows "rejected (run_loader k argv p)
         \<and> no_new_privs (snd (run_loader k argv p)) = no_new_privs p
         \<and> seccomp_filters (snd (run_loader k argv p)) = seccomp_filters p"
proof (cases rule: loader_cases [where k = k and argv = argv])
  case usage
  then show ?thesis
    by (auto simp add: run_loader_def main_usage loader_calls rejected_def)
next
  case noopen
  then show ?thesis
    by (auto simp add: run_loader_def main_open_fails loader_calls rejected_def)
next
  case (noread bs)
  then show ?thesis
    by (auto simp add: run_loader_def main_read_fails loader_calls rejected_def)
next
  case (ok bs)
  with assms show ?thesis
    by (auto simp add: run_loader_def main_unfold_ok loader_calls rejected_def)
qed

theorem early_failure_no_privilege_change_witness:
  "length (take (read_len (sample_kernel (take 5 ret_allow)) MAX_FILTER_SIZE)
             (take 5 ret_allow)) mod 8 \<noteq> 0
   \<and> rejected (run_loader (sample_kernel (take 5 ret_allow)) sample_argv sample_process)
   \<and> no_new_privs (snd (run_loader (sample_kernel (take 5 ret_allow)) sample_argv
                           sample_process))
       = no_new_privs sample_process
   \<and> seccomp_filters (snd (run_loader (sample_kernel (take 5 ret_allow)) sample_argv
                              sample_process))
       = seccomp_filters sample_process
   \<and> length [''apply-seccomp'', ''filter.bpf''] < 3
   \<and> rejected (run_loader (sample_kernel ret_allow) [''apply-seccomp'', ''filter.bpf'']
                  sample_process)
   \<and> length (take (read_len ((sample_kernel (ret_allow_program 2))\<lparr>k_read_short := Some 4\<rparr>)
                       MAX_FILTER_SIZE) (ret_allow_program 2)) = 5
   \<and> rejected (run_loader ((sample_kernel (ret_allow_program 2))\<lparr>k_read_short := Some 4\<rparr>)
                  sample_argv sample_process)"
  using early_failure_no_privilege_change [of sample_argv "sample_kernel (take 5 ret_allow)"
          sample_process]
        early_failure_no_privilege_change [of "[''apply-seccomp'', ''filter.bpf'']"
          "sample_kernel ret_allow" sample_process]
        early_failure_no_privilege_change [of sample_argv
          "(sample_kernel (ret_allow_program 2))\<lparr>k_read_short := Some 4\<rparr>" sample_process]
  by (simp add: sample_kernel_def sample_argv_def MAX_FILTER_SIZE_def read_len_def
      ret_allow_program_simps length_ret_allow_program ret_allow_program_nonempty)

text \<open>
  Claim C10: every read asks for 4096 bytes and returns at most 4096. A program offered
  to the kernel has at most 4096 bytes, a whole number of instructions, at most 512 of
  them, and its 16-bit length field read as a number is exactly the byte count divided by
  8: the narrowing has not wrapped.
\<close>

theorem instruction_count_never_wraps:
  "(\<forall>fd cnt n. Sys_read fd cnt n \<in> set (trace (snd (run_loader k argv p))) \<longrightarrow>
        cnt = 4096 \<and> n \<le> 4096)
   \<and> (\<forall>prog rc. Prctl_seccomp prog rc \<in> set (trace (snd (run_loader k argv p))) \<longrightarrow>
        length (filter_buf prog) \<le> 4096
        \<and> length (filter_buf prog) mod 8 = 0
        \<and> length (filter_buf prog) div 8 \<le> 512
        \<and> unat (len prog) = length (filter_buf prog) div 8)"
proof (cases rule: loader_cases [where k = k and argv = argv])
  case usage
  then show ?thesis
    by (auto simp add: run_loader_def main_usage loader_calls)
next
  case noopen
  then show ?thesis
    by (auto simp add: run_loader_def main_open_fails loader_calls)
next
  case (noread bs)
  then show ?thesis
    by (auto simp add: run_loader_def main_read_fails loader_calls)
next
  case (ok bs)
  have fits: "unat (word_of_int (int (min (length bs) (read_len k 4096)) div 8) :: 16 word)
              = min (length bs) (read_len k 4096) div 8"
    by (rule insn_count_fits) (rule min_read_le)
  have le: "min (length bs) (read_len k 4096) div 8 \<le> 512"
    using min_read_le [of bs k] by simp
  from ok show ?thesis
    using fits le min_read_le [of bs k]
    by (auto simp add: run_loader_def main_unfold_ok loader_calls split: if_splits)
qed

theorem instruction_count_never_wraps_witness:
  "Sys_read 3 4096 4096
     \<in> set (trace (snd (run_loader (sample_kernel (ret_allow_program 512 @ ret_allow))
                           sample_argv sample_process)))
   \<and> Prctl_seccomp \<lparr>len = 512, filter_buf = ret_allow_program 512\<rparr> 0
     \<in> set (trace (snd (run_loader (sample_kernel (ret_allow_program 512 @ ret_allow))
                           sample_argv sample_process)))
   \<and> unat (len \<lparr>len = 512, filter_buf = ret_allow_program 512\<rparr>)
       = length (filter_buf \<lparr>len = 512, filter_buf = ret_allow_program 512\<rparr>) div 8"
  using instruction_count_never_wraps [of "sample_kernel (ret_allow_program 512 @ ret_allow)"
          sample_argv sample_process]
  by (simp add: sample_run_oversized length_ret_allow_program)


section \<open>Properties of the compiler\<close>

subsection \<open>The successful run\<close>

lemmas compiler_calls = seccomp_init_def seccomp_rule_add_def sys_open_creat_def
  seccomp_export_bpf_def write_at_start_def sys_close_c_def clog_def Let_def


text \<open>A mode asked for as \<open>0600\<close> has no bit for group or others, whatever the umask.\<close>

lemma owner_only_under_umask: "((0x180 :: mode) AND NOT u) AND group_other_bits = 0"
proof -
  have "((0x180 :: mode) AND NOT u) AND 0x3F = (0x180 AND 0x3F) AND NOT u"
    by (metis and.assoc and.commute)
  then show ?thesis by (simp add: group_other_bits_def)
qed

subsection \<open>Sample runs\<close>

lemmas sample_compiler_defs = run_compiler_def seccomp_unix_block_main_def sample_env_def
  world_with_output_def empty_world_def compiler_calls written_bytes_def EPERM_def AF_UNIX_def
  SCMP_A0_def sample_fd toy_bpf_of_def



text \<open>The destination exists with mode \<open>0644\<close> and 24 bytes.\<close>

lemma sample_compile_existing:
  "run_compiler sample_env [''seccomp-unix-block'', ''out.bpf''] world_with_output =
     (0, \<lparr>fs = [''out.bpf'' \<mapsto>
                  \<lparr>i_mode = 0x1A4,
                   i_data = [0x06, 0, 0, 0, 0x01, 0, 0x05, 0, 0x06, 0, 0, 0, 0, 0, 0xFF, 0x7F]\<rparr>],
          open_fds = [],
          ctrace = [Open_creat ''out.bpf'' 0x180 0,
                    Export_bpf \<lparr>def_action = SCMP_ACT_ALLOW,
                                rules = [\<lparr>rule_action = SCMP_ACT_ERRNO 1, rule_syscall = 41,
                                          rule_cmps = [\<lparr>cmp_arg = 0, cmp_op = SCMP_CMP_EQ,
                                                        cmp_datum = 1\<rparr>]\<rparr>]\<rparr> 0 0,
                    Close 0]\<rparr>)"
  by (simp add: sample_compiler_defs)


subsection \<open>The claims about the compiler\<close>




text \<open>
  Claim C5 fails on the code where the destination exists before the run: \<^verbatim>\<open>open\<close> with
  \<^verbatim>\<open>O_CREAT | O_TRUNC\<close> applies the mode \<open>0600\<close> only to a file it creates. Here the
  destination exists with mode \<open>0644\<close> (\<open>0x1A4\<close>); the run returns 0, the file holds the new
  program, and its mode is still \<open>0644\<close>: readable by group and others.
\<close>

theorem existing_output_keeps_its_mode:
  "fst (run_compiler sample_env [''seccomp-unix-block'', ''out.bpf''] world_with_output) = 0
   \<and> fs (snd (run_compiler sample_env [''seccomp-unix-block'', ''out.bpf''] world_with_output))
        ''out.bpf''
       = Some \<lparr>i_mode = 0x1A4,
               i_data = toy_bpf_of \<lparr>def_action = SCMP_ACT_ALLOW,
                          rules = [\<lparr>rule_action = SCMP_ACT_ERRNO EPERM, rule_syscall = 41,
                                    rule_cmps = [SCMP_A0 SCMP_CMP_EQ AF_UNIX]\<rparr>]\<rparr>\<rparr>
   \<and> (0x1A4 :: mode) \<noteq> 0x180
   \<and> (0x1A4 :: mode) AND group_other_bits \<noteq> 0"
  by (simp add: sample_compile_existing toy_bpf_of_def group_other_bits_def)

text \<open>
  Claim C6: when the library fails to add the rule (which is where a syscall that cannot
  be resolved or a rule that cannot be built shows), the compiler returns 1, the file
  system is as it was, no descriptor was opened, and the trace has no \<^verbatim>\<open>open\<close> at all: the
  output file is opened only after the rule has been added.
\<close>

theorem rule_failure_leaves_no_file:
  assumes "e_rule_add_errno env \<noteq> 0"
  shows "fst (run_compiler env argv w) = 1
         \<and> fs (snd (run_compiler env argv w)) = fs w
         \<and> open_fds (snd (run_compiler env argv w)) = open_fds w
         \<and> (\<forall>pth m fd. Open_creat pth m fd \<notin> set (ctrace (snd (run_compiler env argv w))))"
  using assms
  unfolding run_compiler_def seccomp_unix_block_main_def
  by (auto simp add: seccomp_init_def seccomp_rule_add_def clog_def Let_def)

theorem rule_failure_leaves_no_file_witness:
  "e_rule_add_errno (sample_env\<lparr>e_rule_add_errno := 12\<rparr>) \<noteq> 0
   \<and> fst (run_compiler (sample_env\<lparr>e_rule_add_errno := 12\<rparr>)
            [''seccomp-unix-block'', ''out.bpf''] world_with_output) = 1
   \<and> fs (snd (run_compiler (sample_env\<lparr>e_rule_add_errno := 12\<rparr>)
                [''seccomp-unix-block'', ''out.bpf''] world_with_output))
       = fs world_with_output
   \<and> fs world_with_output ''out.bpf'' = Some \<lparr>i_mode = 0x1A4, i_data = replicate 24 0xAA\<rparr>"
  using rule_failure_leaves_no_file [of "sample_env\<lparr>e_rule_add_errno := 12\<rparr>"
          "[''seccomp-unix-block'', ''out.bpf'']" world_with_output]
  by (simp add: world_with_output_def)


end
